theory Spec2Isabelle
  imports Main "HOL-Library.Word"
begin

section \<open>The unified model (package provider)\<close>

text \<open>
  Go strings are \<^typ>\<open>string\<close>; a pointer field that may be nil is an \<open>option\<close>; a
  slice is a list (a nil slice and an empty one are both \<open>[]\<close>, as the code only
  takes their length and ranges over them).  Go's \<open>int\<close> is 64 bits wide on the
  platforms the module targets: token counts, which the mappers add, are \<open>64 word\<close>;
  tool-call indices, which are only copied or counted up from zero, are \<^typ>\<open>int\<close>.
  The types \<open>'f\<close> and \<open>'j\<close> stand for \<open>float64\<close> and for a decoded JSON value
  (\<open>any\<close>, \<open>map[string]any\<close>): the mappers only pass them on.
\<close>

datatype error =
    ErrStreamClosed
  | ErrorMsg string
  | Wrap string error

record FunctionCall =
  fc_Name :: string
  fc_Arguments :: string

record ToolCall =
  tc_ID :: string
  tc_Type :: string
  tc_Function :: FunctionCall
  tc_Index :: int

record Message =
  msg_Role :: string
  msg_Content :: string
  msg_ToolCalls :: "ToolCall list"
  msg_ToolCallID :: string
  msg_Name :: string

record 'j Function =
  fn_Name :: string
  fn_Description :: string
  fn_Parameters :: 'j
  fn_Strict :: bool

record 'j Tool =
  tool_Type :: string
  tool_Function :: "'j Function"

record ('f, 'j) ChatRequest =
  req_Messages :: "Message list"
  req_Model :: string
  req_Temperature :: "'f option"
  req_TopP :: "'f option"
  req_MaxTokens :: "int option"
  req_Stream :: bool
  req_Stop :: "string list"
  req_Tools :: "'j Tool list"
  req_ToolChoice :: "string option"
  req_PresencePenalty :: "'f option"
  req_FrequencyPenalty :: "'f option"
  req_RandomSeed :: "int option"

record Usage =
  PromptTokens :: "64 word"
  CompletionTokens :: "64 word"
  TotalTokens :: "64 word"

record Choice =
  ch_Index :: int
  ch_Message :: Message
  ch_FinishReason :: string

record ChatResponse =
  resp_ID :: string
  resp_Object :: string
  resp_Created :: "64 word"
  resp_Model :: string
  resp_Choices :: "Choice list"
  resp_Usage :: Usage

record Delta =
  d_Content :: string
  d_ToolCalls :: "ToolCall list"

record StreamEvent =
  ev_Delta :: Delta
  ev_FinishReason :: string
  ev_Err :: "error option"

definition RoleSystem :: string where "RoleSystem = ''system''"
definition RoleUser :: string where "RoleUser = ''user''"
definition RoleAssistant :: string where "RoleAssistant = ''assistant''"
definition RoleTool :: string where "RoleTool = ''tool''"

definition FinishReasonStop :: string where "FinishReasonStop = ''stop''"
definition FinishReasonLength :: string where "FinishReasonLength = ''length''"
definition FinishReasonToolCalls :: string where "FinishReasonToolCalls = ''tool_calls''"

text \<open>The zero values of the Go structs.\<close>

definition zeroFunctionCall :: FunctionCall where
  "zeroFunctionCall = \<lparr>fc_Name = [], fc_Arguments = []\<rparr>"

definition zeroDelta :: Delta where
  "zeroDelta = \<lparr>d_Content = [], d_ToolCalls = []\<rparr>"

definition zeroStreamEvent :: StreamEvent where
  "zeroStreamEvent = \<lparr>ev_Delta = zeroDelta, ev_FinishReason = [], ev_Err = None\<rparr>"

subsection \<open>StreamReader\<close>

text \<open>
  The channel \<open>events\<close> as its single consumer sees it: the events the producer
  still delivers, in order, and whether the producer closes the channel after them.
  A receive on a drained channel that is never closed blocks for ever: \<open>None\<close>.

  The \<open>close\<close> hook is a Go closure.  The providers build two of them:
  \<open>func() { resp.Body.Close() }\<close> (openai, mistral, anthropic) and
  \<open>func() { close(done) }\<close> (ollama).  What they act on is kept in
  \<open>resources\<close>.  Closing an HTTP response body again is harmless; closing a closed
  channel is a run-time panic of the language.
\<close>

datatype chan = Chan (pending: "StreamEvent list") (closes: bool)

datatype closer = CloseBody | CloseDone

record StreamReader =
  rd_events :: chan
  rd_err :: "error option"
  rd_done :: bool
  rd_close :: "closer option"

record resources =
  body_closed :: bool
  done_closed :: bool

datatype panic = CloseOfClosedChannel

definition NewStreamReader :: "chan \<Rightarrow> closer option \<Rightarrow> StreamReader" where
  "NewStreamReader events close =
     \<lparr>rd_events = events, rd_err = None, rd_done = False, rd_close = close\<rparr>"

fun Recv :: "StreamReader \<Rightarrow> ((StreamEvent \<times> error option) \<times> StreamReader) option" where
  "Recv s =
     (if rd_done s then Some ((zeroStreamEvent, Some ErrStreamClosed), s)
      else case rd_events s of
        Chan [] False \<Rightarrow> None
      | Chan [] True \<Rightarrow> Some ((zeroStreamEvent, Some ErrStreamClosed), s\<lparr>rd_done := True\<rparr>)
      | Chan (event # evs) c \<Rightarrow>
          (case ev_Err event of
             Some e \<Rightarrow> Some ((event, Some e), s\<lparr>rd_events := Chan evs c, rd_err := Some e\<rparr>)
           | None \<Rightarrow> Some ((event, None), s\<lparr>rd_events := Chan evs c\<rparr>)))"

text \<open>\<open>n\<close> calls of \<open>Recv\<close> in sequence: the reader they leave, if none blocks.\<close>

fun Recv_times :: "nat \<Rightarrow> StreamReader \<Rightarrow> StreamReader option" where
  "Recv_times 0 s = Some s"
| "Recv_times (Suc n) s = (case Recv s of None \<Rightarrow> None | Some (r, s') \<Rightarrow> Recv_times n s')"

fun run_closer :: "closer \<Rightarrow> resources \<Rightarrow> panic + resources" where
  "run_closer CloseBody w = Inr (w\<lparr>body_closed := True\<rparr>)"
| "run_closer CloseDone w =
     (if done_closed w then Inl CloseOfClosedChannel else Inr (w\<lparr>done_closed := True\<rparr>))"

fun Close :: "StreamReader \<Rightarrow> resources \<Rightarrow> panic + resources" where
  "Close s w = (case rd_close s of Some c \<Rightarrow> run_closer c w | None \<Rightarrow> Inr w)"

text \<open>Two calls of \<open>Close\<close> in sequence; a panic in the first ends the sequence.\<close>

definition Close_twice :: "StreamReader \<Rightarrow> resources \<Rightarrow> panic + resources" where
  "Close_twice s w = (case Close s w of Inl p \<Rightarrow> Inl p | Inr w' \<Rightarrow> Close s w')"

text \<open>The readers the providers' \<open>Stream\<close> return (last line of each \<open>Stream\<close>).\<close>

definition openai_reader :: "chan \<Rightarrow> StreamReader" where
  "openai_reader events = NewStreamReader events (Some CloseBody)"

definition mistral_reader :: "chan \<Rightarrow> StreamReader" where
  "mistral_reader events = NewStreamReader events (Some CloseBody)"

definition anthropic_reader :: "chan \<Rightarrow> StreamReader" where
  "anthropic_reader events = NewStreamReader events (Some CloseBody)"

definition ollama_reader :: "chan \<Rightarrow> StreamReader" where
  "ollama_reader events = NewStreamReader events (Some CloseDone)"

definition fresh :: resources where
  "fresh = \<lparr>body_closed = False, done_closed = False\<rparr>"


section \<open>Strings and the line scanner\<close>

text \<open>\<open>strings.HasPrefix\<close> and \<open>strings.TrimPrefix\<close>.\<close>

definition HasPrefix :: "string \<Rightarrow> string \<Rightarrow> bool" where
  "HasPrefix s p = (take (length p) s = p)"

definition TrimPrefix :: "string \<Rightarrow> string \<Rightarrow> string" where
  "TrimPrefix s p = (if HasPrefix s p then drop (length p) s else s)"

text \<open>
  The stream decoders read the response body with a \<open>bufio.Scanner\<close>: their input
  is the list of lines the scanner yields until \<open>Scan\<close> returns false.
  \<open>json.Unmarshal\<close> into the vendor's frame type is a parameter \<open>um\<close> of each
  decoder, from the payload text to an error or the decoded frame.  The decoders'
  result is the sequence of events the producer goroutine sends on the channel
  before it closes it, in a run where the consumer receives every event and the
  request context is not cancelled.
\<close>

section \<open>OpenAI\<close>

record openaiFunctionCall =
  ofc_Name :: string
  ofc_Arguments :: string

record openaiToolCall =
  otc_ID :: string
  otc_Type :: string
  otc_Function :: openaiFunctionCall
  otc_Index :: int

record openaiMessage =
  om_Role :: string
  om_Content :: "string option"
  om_ToolCalls :: "openaiToolCall list"
  om_ToolCallID :: string
  om_Name :: string

record openaiToolResultMessage =
  otr_Role :: string
  otr_Content :: string
  otr_ToolCallID :: string

text \<open>An element of \<open>Messages []any\<close>: one of the two structs the mapper stores.\<close>

datatype openaiAnyMessage =
    OpenaiMessage openaiMessage
  | OpenaiToolResultMessage openaiToolResultMessage

record 'j openaiFunction =
  of_Name :: string
  of_Description :: string
  of_Parameters :: 'j
  of_Strict :: bool

record 'j openaiTool =
  ot_Type :: string
  ot_Function :: "'j openaiFunction"

record ('f, 'j) openaiChatCompletionRequest =
  oreq_Model :: string
  oreq_Messages :: "openaiAnyMessage list"
  oreq_Temperature :: "'f option"
  oreq_TopP :: "'f option"
  oreq_MaxTokens :: "int option"
  oreq_Stream :: bool
  oreq_Stop :: "string list"
  oreq_Tools :: "'j openaiTool list"
  oreq_ToolChoice :: "string option"
  oreq_PresencePenalty :: "'f option"
  oreq_FrequencyPenalty :: "'f option"

record openaiUsage =
  ou_PromptTokens :: "64 word"
  ou_CompletionTokens :: "64 word"
  ou_TotalTokens :: "64 word"

record openaiChoice =
  oc_Index :: int
  oc_Message :: openaiMessage
  oc_FinishReason :: string

record openaiChatCompletionResponse =
  oresp_ID :: string
  oresp_Object :: string
  oresp_Created :: "64 word"
  oresp_Model :: string
  oresp_Choices :: "openaiChoice list"
  oresp_Usage :: openaiUsage

record openaiDeltaMessage =
  od_Role :: string
  od_Content :: string
  od_ToolCalls :: "openaiToolCall list"

record openaiStreamChoice =
  osc_Index :: int
  osc_Delta :: openaiDeltaMessage
  osc_FinishReason :: string

record openaiStreamChunk =
  ock_ID :: string
  ock_Object :: string
  ock_Created :: "64 word"
  ock_Model :: string
  ock_Choices :: "openaiStreamChoice list"

subsection \<open>toOpenAIRequest\<close>

definition toOpenAIToolCall :: "ToolCall \<Rightarrow> openaiToolCall" where
  "toOpenAIToolCall tc =
     (let toolType = (if tc_Type tc = [] then ''function'' else tc_Type tc)
      in \<lparr>otc_ID = tc_ID tc, otc_Type = toolType,
          otc_Function = \<lparr>ofc_Name = fc_Name (tc_Function tc),
                          ofc_Arguments = fc_Arguments (tc_Function tc)\<rparr>,
          otc_Index = tc_Index tc\<rparr>)"

definition toOpenAIMessage :: "Message \<Rightarrow> openaiAnyMessage" where
  "toOpenAIMessage msg =
     (if msg_Role msg = RoleTool then
        OpenaiToolResultMessage
          \<lparr>otr_Role = msg_Role msg, otr_Content = msg_Content msg,
           otr_ToolCallID = msg_ToolCallID msg\<rparr>
      else
        OpenaiMessage
          \<lparr>om_Role = msg_Role msg,
           om_Content = (if msg_Content msg \<noteq> [] then Some (msg_Content msg) else None),
           om_ToolCalls = map toOpenAIToolCall (msg_ToolCalls msg),
           om_ToolCallID = msg_ToolCallID msg,
           om_Name = msg_Name msg\<rparr>)"

definition toOpenAITool :: "'j Tool \<Rightarrow> 'j openaiTool" where
  "toOpenAITool t =
     \<lparr>ot_Type = tool_Type t,
      ot_Function = \<lparr>of_Name = fn_Name (tool_Function t),
                     of_Description = fn_Description (tool_Function t),
                     of_Parameters = fn_Parameters (tool_Function t),
                     of_Strict = fn_Strict (tool_Function t)\<rparr>\<rparr>"

definition toOpenAIRequest ::
  "('f, 'j) ChatRequest \<Rightarrow> string \<Rightarrow> ('f, 'j) openaiChatCompletionRequest" where
  "toOpenAIRequest req model =
     \<lparr>oreq_Model = model,
      oreq_Messages = map toOpenAIMessage (req_Messages req),
      oreq_Temperature = req_Temperature req,
      oreq_TopP = req_TopP req,
      oreq_MaxTokens = req_MaxTokens req,
      oreq_Stream = req_Stream req,
      oreq_Stop = req_Stop req,
      oreq_Tools = map toOpenAITool (req_Tools req),
      oreq_ToolChoice = req_ToolChoice req,
      oreq_PresencePenalty = req_PresencePenalty req,
      oreq_FrequencyPenalty = req_FrequencyPenalty req\<rparr>"

subsection \<open>toProviderResponse (openai)\<close>

definition fromOpenAIToolCall :: "openaiToolCall \<Rightarrow> ToolCall" where
  "fromOpenAIToolCall tc =
     (let toolType = (if otc_Type tc = [] then ''function'' else otc_Type tc)
      in \<lparr>tc_ID = otc_ID tc, tc_Type = toolType,
          tc_Function = \<lparr>fc_Name = ofc_Name (otc_Function tc),
                         fc_Arguments = ofc_Arguments (otc_Function tc)\<rparr>,
          tc_Index = otc_Index tc\<rparr>)"

definition fromOpenAIChoice :: "openaiChoice \<Rightarrow> Choice" where
  "fromOpenAIChoice c =
     \<lparr>ch_Index = oc_Index c,
      ch_Message =
        \<lparr>msg_Role = om_Role (oc_Message c),
         msg_Content = (case om_Content (oc_Message c) of Some t \<Rightarrow> t | None \<Rightarrow> []),
         msg_ToolCalls = map fromOpenAIToolCall (om_ToolCalls (oc_Message c)),
         msg_ToolCallID = om_ToolCallID (oc_Message c),
         msg_Name = om_Name (oc_Message c)\<rparr>,
      ch_FinishReason = oc_FinishReason c\<rparr>"

definition openai_toProviderResponse :: "openaiChatCompletionResponse \<Rightarrow> ChatResponse" where
  "openai_toProviderResponse resp =
     \<lparr>resp_ID = oresp_ID resp,
      resp_Object = oresp_Object resp,
      resp_Created = oresp_Created resp,
      resp_Model = oresp_Model resp,
      resp_Choices = map fromOpenAIChoice (oresp_Choices resp),
      resp_Usage = \<lparr>PromptTokens = ou_PromptTokens (oresp_Usage resp),
                    CompletionTokens = ou_CompletionTokens (oresp_Usage resp),
                    TotalTokens = ou_TotalTokens (oresp_Usage resp)\<rparr>\<rparr>"

subsection \<open>Stream (openai)\<close>

text \<open>The event built from the first choice of a chunk (the stream copies the
  tool call's type as it is, without the \<open>"function"\<close> default of the mappers).\<close>

definition openai_stream_toolcall :: "openaiToolCall \<Rightarrow> ToolCall" where
  "openai_stream_toolcall tc =
     \<lparr>tc_ID = otc_ID tc, tc_Type = otc_Type tc,
      tc_Function = \<lparr>fc_Name = ofc_Name (otc_Function tc),
                     fc_Arguments = ofc_Arguments (otc_Function tc)\<rparr>,
      tc_Index = otc_Index tc\<rparr>"

definition openai_event :: "openaiStreamChoice \<Rightarrow> StreamEvent" where
  "openai_event choice =
     \<lparr>ev_Delta = \<lparr>d_Content = od_Content (osc_Delta choice),
                   d_ToolCalls = map openai_stream_toolcall (od_ToolCalls (osc_Delta choice))\<rparr>,
      ev_FinishReason = osc_FinishReason choice,
      ev_Err = None\<rparr>"

definition parse_chunk_error :: "error \<Rightarrow> StreamEvent" where
  "parse_chunk_error err =
     \<lparr>ev_Delta = zeroDelta, ev_FinishReason = [],
      ev_Err = Some (Wrap ''failed to parse chunk'' err)\<rparr>"

fun openai_stream :: "(string \<Rightarrow> error + openaiStreamChunk) \<Rightarrow> string list \<Rightarrow> StreamEvent list" where
  "openai_stream um [] = []"
| "openai_stream um (line # lines) =
     (if \<not> HasPrefix line ''data: '' then openai_stream um lines
      else let data = TrimPrefix line ''data: '' in
        if data = ''[DONE]'' then []
        else case um data of
          Inl err \<Rightarrow> [parse_chunk_error err]
        | Inr chunk \<Rightarrow>
            (case ock_Choices chunk of
               [] \<Rightarrow> openai_stream um lines
             | choice # _ \<Rightarrow> openai_event choice # openai_stream um lines))"


section \<open>Mistral\<close>

text \<open>
  Mistral's wire structs repeat OpenAI's field for field, except the tool-result
  message (which also carries \<open>Name\<close>) and the request (which also carries
  \<open>RandomSeed\<close>).  The structs with the same fields share their record.
\<close>

type_synonym mistralToolCall = openaiToolCall
type_synonym mistralMessage = openaiMessage
type_synonym 'j mistralTool = "'j openaiTool"
type_synonym mistralUsage = openaiUsage
type_synonym mistralChoice = openaiChoice
type_synonym mistralChatCompletionResponse = openaiChatCompletionResponse
type_synonym mistralStreamChoice = openaiStreamChoice
type_synonym mistralStreamChunk = openaiStreamChunk

record mistralToolResultMessage =
  mtr_Role :: string
  mtr_Content :: string
  mtr_ToolCallID :: string
  mtr_Name :: string

datatype mistralAnyMessage =
    MistralMessage mistralMessage
  | MistralToolResultMessage mistralToolResultMessage

record ('f, 'j) mistralChatCompletionRequest =
  mreq_Model :: string
  mreq_Messages :: "mistralAnyMessage list"
  mreq_Temperature :: "'f option"
  mreq_TopP :: "'f option"
  mreq_MaxTokens :: "int option"
  mreq_Stream :: bool
  mreq_Stop :: "string list"
  mreq_RandomSeed :: "int option"
  mreq_Tools :: "'j mistralTool list"
  mreq_ToolChoice :: "string option"
  mreq_PresencePenalty :: "'f option"
  mreq_FrequencyPenalty :: "'f option"

subsection \<open>toMistralRequest\<close>

definition toMistralToolCall :: "ToolCall \<Rightarrow> mistralToolCall" where
  "toMistralToolCall tc =
     (let toolType = (if tc_Type tc = [] then ''function'' else tc_Type tc)
      in \<lparr>otc_ID = tc_ID tc, otc_Type = toolType,
          otc_Function = \<lparr>ofc_Name = fc_Name (tc_Function tc),
                          ofc_Arguments = fc_Arguments (tc_Function tc)\<rparr>,
          otc_Index = tc_Index tc\<rparr>)"

definition toMistralMessage :: "Message \<Rightarrow> mistralAnyMessage" where
  "toMistralMessage msg =
     (if msg_Role msg = RoleTool then
        MistralToolResultMessage
          \<lparr>mtr_Role = msg_Role msg, mtr_Content = msg_Content msg,
           mtr_ToolCallID = msg_ToolCallID msg, mtr_Name = msg_Name msg\<rparr>
      else
        MistralMessage
          \<lparr>om_Role = msg_Role msg,
           om_Content = (if msg_Content msg \<noteq> [] then Some (msg_Content msg) else None),
           om_ToolCalls = map toMistralToolCall (msg_ToolCalls msg),
           om_ToolCallID = msg_ToolCallID msg,
           om_Name = msg_Name msg\<rparr>)"

definition toMistralTool :: "'j Tool \<Rightarrow> 'j mistralTool" where
  "toMistralTool t =
     \<lparr>ot_Type = tool_Type t,
      ot_Function = \<lparr>of_Name = fn_Name (tool_Function t),
                     of_Description = fn_Description (tool_Function t),
                     of_Parameters = fn_Parameters (tool_Function t),
                     of_Strict = fn_Strict (tool_Function t)\<rparr>\<rparr>"

definition toMistralRequest ::
  "('f, 'j) ChatRequest \<Rightarrow> string \<Rightarrow> ('f, 'j) mistralChatCompletionRequest" where
  "toMistralRequest req model =
     \<lparr>mreq_Model = model,
      mreq_Messages = map toMistralMessage (req_Messages req),
      mreq_Temperature = req_Temperature req,
      mreq_TopP = req_TopP req,
      mreq_MaxTokens = req_MaxTokens req,
      mreq_Stream = req_Stream req,
      mreq_Stop = req_Stop req,
      mreq_RandomSeed = req_RandomSeed req,
      mreq_Tools = map toMistralTool (req_Tools req),
      mreq_ToolChoice = req_ToolChoice req,
      mreq_PresencePenalty = req_PresencePenalty req,
      mreq_FrequencyPenalty = req_FrequencyPenalty req\<rparr>"

subsection \<open>toProviderResponse (mistral)\<close>

definition fromMistralToolCall :: "mistralToolCall \<Rightarrow> ToolCall" where
  "fromMistralToolCall tc =
     (let toolType = (if otc_Type tc = [] then ''function'' else otc_Type tc)
      in \<lparr>tc_ID = otc_ID tc, tc_Type = toolType,
          tc_Function = \<lparr>fc_Name = ofc_Name (otc_Function tc),
                         fc_Arguments = ofc_Arguments (otc_Function tc)\<rparr>,
          tc_Index = otc_Index tc\<rparr>)"

definition fromMistralChoice :: "mistralChoice \<Rightarrow> Choice" where
  "fromMistralChoice c =
     \<lparr>ch_Index = oc_Index c,
      ch_Message =
        \<lparr>msg_Role = om_Role (oc_Message c),
         msg_Content = (case om_Content (oc_Message c) of Some t \<Rightarrow> t | None \<Rightarrow> []),
         msg_ToolCalls = map fromMistralToolCall (om_ToolCalls (oc_Message c)),
         msg_ToolCallID = om_ToolCallID (oc_Message c),
         msg_Name = om_Name (oc_Message c)\<rparr>,
      ch_FinishReason = oc_FinishReason c\<rparr>"

definition mistral_toProviderResponse :: "mistralChatCompletionResponse \<Rightarrow> ChatResponse" where
  "mistral_toProviderResponse resp =
     \<lparr>resp_ID = oresp_ID resp,
      resp_Object = oresp_Object resp,
      resp_Created = oresp_Created resp,
      resp_Model = oresp_Model resp,
      resp_Choices = map fromMistralChoice (oresp_Choices resp),
      resp_Usage = \<lparr>PromptTokens = ou_PromptTokens (oresp_Usage resp),
                    CompletionTokens = ou_CompletionTokens (oresp_Usage resp),
                    TotalTokens = ou_TotalTokens (oresp_Usage resp)\<rparr>\<rparr>"

subsection \<open>Stream (mistral)\<close>

definition mistral_stream_toolcall :: "mistralToolCall \<Rightarrow> ToolCall" where
  "mistral_stream_toolcall tc =
     \<lparr>tc_ID = otc_ID tc, tc_Type = otc_Type tc,
      tc_Function = \<lparr>fc_Name = ofc_Name (otc_Function tc),
                     fc_Arguments = ofc_Arguments (otc_Function tc)\<rparr>,
      tc_Index = otc_Index tc\<rparr>"

definition mistral_event :: "mistralStreamChoice \<Rightarrow> StreamEvent" where
  "mistral_event choice =
     \<lparr>ev_Delta = \<lparr>d_Content = od_Content (osc_Delta choice),
                   d_ToolCalls = map mistral_stream_toolcall (od_ToolCalls (osc_Delta choice))\<rparr>,
      ev_FinishReason = osc_FinishReason choice,
      ev_Err = None\<rparr>"

fun mistral_stream :: "(string \<Rightarrow> error + mistralStreamChunk) \<Rightarrow> string list \<Rightarrow> StreamEvent list" where
  "mistral_stream um [] = []"
| "mistral_stream um (line # lines) =
     (if \<not> HasPrefix line ''data: '' then mistral_stream um lines
      else let data = TrimPrefix line ''data: '' in
        if data = ''[DONE]'' then []
        else case um data of
          Inl err \<Rightarrow> [parse_chunk_error err]
        | Inr chunk \<Rightarrow>
            (case ock_Choices chunk of
               [] \<Rightarrow> mistral_stream um lines
             | choice # _ \<Rightarrow> mistral_event choice # mistral_stream um lines))"

section \<open>Anthropic\<close>

definition defaultMaxTokens :: int where
  "defaultMaxTokens = 8192"

record 'j anthropicContent =
  ac_Type :: string
  ac_Text :: string
  ac_ID :: string
  ac_Name :: string
  ac_Input :: "'j option"
  ac_ToolUseID :: string
  ac_Content :: string

record 'j anthropicMessage =
  am_Role :: string
  am_Content :: "'j anthropicContent list"

record 'j anthropicTool =
  at_Name :: string
  at_Description :: string
  at_InputSchema :: 'j

record 'j anthropicMessageRequest =
  areq_Model :: string
  areq_Messages :: "'j anthropicMessage list"
  areq_System :: string
  areq_MaxTokens :: int
  areq_Stream :: bool
  areq_Tools :: "'j anthropicTool list"

record anthropicUsage =
  au_InputTokens :: "64 word"
  au_OutputTokens :: "64 word"

record 'j anthropicMessageResponse =
  aresp_ID :: string
  aresp_Type :: string
  aresp_Role :: string
  aresp_Content :: "'j anthropicContent list"
  aresp_Model :: string
  aresp_StopReason :: string
  aresp_StopSequence :: string
  aresp_Usage :: anthropicUsage

record anthropicDelta =
  ad_Type :: string
  ad_Text :: string
  ad_PartialJSON :: string
  ad_StopReason :: string

record 'j anthropicContentBlock =
  acb_Type :: string
  acb_ID :: string
  acb_Name :: string
  acb_Input :: "'j option"
  acb_Text :: string

record 'j anthropicStreamEvent =
  ase_Type :: string
  ase_Index :: "int option"
  ase_Delta :: "anthropicDelta option"
  ase_ContentBlock :: "'j anthropicContentBlock option"
  ase_Message :: "'j anthropicMessageResponse option"


subsection \<open>toAnthropicRequest\<close>

text \<open>
  \<open>parse\<close> is \<open>json.Unmarshal\<close> of the argument text into \<open>var input any\<close>:
  \<open>None\<close> is an \<open>input\<close> left nil (the error of a failed parse is dropped).
\<close>

definition anthropic_tool_use :: "(string \<Rightarrow> 'j option) \<Rightarrow> ToolCall \<Rightarrow> 'j anthropicContent" where
  "anthropic_tool_use parse tc =
     (let input = (if fc_Arguments (tc_Function tc) \<noteq> []
                   then parse (fc_Arguments (tc_Function tc)) else None)
      in \<lparr>ac_Type = ''tool_use'', ac_Text = [], ac_ID = tc_ID tc,
          ac_Name = fc_Name (tc_Function tc), ac_Input = input,
          ac_ToolUseID = [], ac_Content = []\<rparr>)"

definition anthropic_text :: "string \<Rightarrow> 'j anthropicContent" where
  "anthropic_text t =
     \<lparr>ac_Type = ''text'', ac_Text = t, ac_ID = [], ac_Name = [], ac_Input = None,
      ac_ToolUseID = [], ac_Content = []\<rparr>"

definition anthropic_tool_result :: "Message \<Rightarrow> 'j anthropicContent" where
  "anthropic_tool_result msg =
     \<lparr>ac_Type = ''tool_result'', ac_Text = [], ac_ID = [], ac_Name = [], ac_Input = None,
      ac_ToolUseID = msg_ToolCallID msg, ac_Content = msg_Content msg\<rparr>"

text \<open>The loop over \<open>req.Messages\<close>, with its two variables \<open>systemPrompt\<close> and
  \<open>messages\<close>.\<close>

fun anthropic_messages ::
  "(string \<Rightarrow> 'j option) \<Rightarrow> string \<Rightarrow> 'j anthropicMessage list \<Rightarrow> Message list
     \<Rightarrow> string \<times> 'j anthropicMessage list" where
  "anthropic_messages parse systemPrompt messages [] = (systemPrompt, messages)"
| "anthropic_messages parse systemPrompt messages (msg # msgs) =
     (if msg_Role msg = RoleSystem then
        anthropic_messages parse (msg_Content msg) messages msgs
      else if msg_Role msg = RoleUser then
        anthropic_messages parse systemPrompt
          (messages @ [\<lparr>am_Role = ''user'', am_Content = [anthropic_text (msg_Content msg)]\<rparr>]) msgs
      else if msg_Role msg = RoleAssistant then
        (let content =
               (if msg_Content msg \<noteq> [] then [anthropic_text (msg_Content msg)] else [])
               @ map (anthropic_tool_use parse) (msg_ToolCalls msg)
         in if length content > 0 then
              anthropic_messages parse systemPrompt
                (messages @ [\<lparr>am_Role = ''assistant'', am_Content = content\<rparr>]) msgs
            else anthropic_messages parse systemPrompt messages msgs)
      else if msg_Role msg = RoleTool then
        anthropic_messages parse systemPrompt
          (messages @ [\<lparr>am_Role = ''user'', am_Content = [anthropic_tool_result msg]\<rparr>]) msgs
      else anthropic_messages parse systemPrompt messages msgs)"

definition toAnthropicTool :: "'j Tool \<Rightarrow> 'j anthropicTool" where
  "toAnthropicTool t =
     \<lparr>at_Name = fn_Name (tool_Function t),
      at_Description = fn_Description (tool_Function t),
      at_InputSchema = fn_Parameters (tool_Function t)\<rparr>"

definition toAnthropicRequest ::
  "(string \<Rightarrow> 'j option) \<Rightarrow> ('f, 'j) ChatRequest \<Rightarrow> string \<Rightarrow> 'j anthropicMessageRequest" where
  "toAnthropicRequest parse req model =
     (case anthropic_messages parse [] [] (req_Messages req) of
        (systemPrompt, messages) \<Rightarrow>
          let maxTokens = (case req_MaxTokens req of Some n \<Rightarrow> n | None \<Rightarrow> defaultMaxTokens)
          in \<lparr>areq_Model = model,
              areq_Messages = messages,
              areq_System = systemPrompt,
              areq_MaxTokens = maxTokens,
              areq_Stream = False,
              areq_Tools = map toAnthropicTool (req_Tools req)\<rparr>)"

subsection \<open>toProviderResponse (anthropic)\<close>

text \<open>
  \<open>marshal\<close> is \<open>json.Marshal\<close> of a block's \<open>Input\<close> (its error is dropped).
  The loop over \<open>resp.Content\<close> carries the position \<open>i\<close> and the variables
  \<open>content\<close> and \<open>toolCalls\<close>.
\<close>

fun anthropic_blocks ::
  "('j option \<Rightarrow> string) \<Rightarrow> nat \<Rightarrow> string \<Rightarrow> ToolCall list \<Rightarrow> 'j anthropicContent list
     \<Rightarrow> string \<times> ToolCall list" where
  "anthropic_blocks marshal i content toolCalls [] = (content, toolCalls)"
| "anthropic_blocks marshal i content toolCalls (c # cs) =
     (if ac_Type c = ''text'' then
        anthropic_blocks marshal (Suc i) (content @ ac_Text c) toolCalls cs
      else if ac_Type c = ''tool_use'' then
        anthropic_blocks marshal (Suc i) content
          (toolCalls @ [\<lparr>tc_ID = ac_ID c, tc_Type = ''function'',
                          tc_Function = \<lparr>fc_Name = ac_Name c,
                                         fc_Arguments = marshal (ac_Input c)\<rparr>,
                          tc_Index = int i\<rparr>]) cs
      else anthropic_blocks marshal (Suc i) content toolCalls cs)"

definition anthropic_finish_reason :: "string \<Rightarrow> string" where
  "anthropic_finish_reason stopReason =
     (if stopReason = ''tool_use'' then ''tool_calls''
      else if stopReason = ''end_turn'' then ''stop''
      else stopReason)"

definition anthropic_toProviderResponse ::
  "('j option \<Rightarrow> string) \<Rightarrow> 'j anthropicMessageResponse \<Rightarrow> ChatResponse" where
  "anthropic_toProviderResponse marshal resp =
     (case anthropic_blocks marshal 0 [] [] (aresp_Content resp) of
        (content, toolCalls) \<Rightarrow>
          \<lparr>resp_ID = aresp_ID resp,
           resp_Object = ''chat.completion'',
           resp_Created = 0,
           resp_Model = aresp_Model resp,
           resp_Choices =
             [\<lparr>ch_Index = 0,
               ch_Message = \<lparr>msg_Role = RoleAssistant, msg_Content = content,
                             msg_ToolCalls = toolCalls, msg_ToolCallID = [], msg_Name = []\<rparr>,
               ch_FinishReason = anthropic_finish_reason (aresp_StopReason resp)\<rparr>],
           resp_Usage = \<lparr>PromptTokens = au_InputTokens (aresp_Usage resp),
                         CompletionTokens = au_OutputTokens (aresp_Usage resp),
                         TotalTokens = au_InputTokens (aresp_Usage resp)
                                       + au_OutputTokens (aresp_Usage resp)\<rparr>\<rparr>)"

subsection \<open>Stream (anthropic)\<close>

text \<open>The decoder's variables \<open>currentToolCallIndex\<close> and \<open>toolCallIndices\<close>.\<close>

record decoder_state =
  currentToolCallIndex :: int
  toolCallIndices :: "string \<rightharpoonup> int"

definition initial_state :: decoder_state where
  "initial_state = \<lparr>currentToolCallIndex = 0, toolCallIndices = Map.empty\<rparr>"

definition content_event :: "string \<Rightarrow> StreamEvent" where
  "content_event t =
     \<lparr>ev_Delta = \<lparr>d_Content = t, d_ToolCalls = []\<rparr>, ev_FinishReason = [], ev_Err = None\<rparr>"

definition toolcall_event :: "ToolCall \<Rightarrow> StreamEvent" where
  "toolcall_event tc =
     \<lparr>ev_Delta = \<lparr>d_Content = [], d_ToolCalls = [tc]\<rparr>, ev_FinishReason = [], ev_Err = None\<rparr>"

definition finish_event :: "string \<Rightarrow> StreamEvent" where
  "finish_event r = \<lparr>ev_Delta = zeroDelta, ev_FinishReason = r, ev_Err = None\<rparr>"

definition arguments_fragment :: "int \<Rightarrow> string \<Rightarrow> ToolCall" where
  "arguments_fragment i partial =
     \<lparr>tc_ID = [], tc_Type = [],
      tc_Function = \<lparr>fc_Name = [], fc_Arguments = partial\<rparr>, tc_Index = i\<rparr>"

definition tool_start :: "string \<Rightarrow> string \<Rightarrow> int \<Rightarrow> ToolCall" where
  "tool_start ident name idx =
     \<lparr>tc_ID = ident, tc_Type = ''function'',
      tc_Function = \<lparr>fc_Name = name, fc_Arguments = []\<rparr>, tc_Index = idx\<rparr>"

text \<open>
  The \<open>switch streamEvent.Type\<close> of the loop body: the events it sends, whether it
  returns from the goroutine, and the decoder's variables after it.
\<close>

definition anthropic_frame ::
  "decoder_state \<Rightarrow> 'j anthropicStreamEvent \<Rightarrow> StreamEvent list \<times> bool \<times> decoder_state" where
  "anthropic_frame st streamEvent =
     (if ase_Type streamEvent = ''content_block_delta'' then
        (case ase_Delta streamEvent of
           None \<Rightarrow> ([], False, st)
         | Some delta \<Rightarrow>
             if ad_Type delta = ''text_delta'' then
               ([content_event (ad_Text delta)], False, st)
             else if ad_Type delta = ''input_json_delta'' then
               (case ase_Index streamEvent of
                  Some i \<Rightarrow> ([toolcall_event (arguments_fragment i (ad_PartialJSON delta))], False, st)
                | None \<Rightarrow> ([], False, st))
             else ([], False, st))
      else if ase_Type streamEvent = ''content_block_start'' then
        (case ase_ContentBlock streamEvent of
           None \<Rightarrow> ([], False, st)
         | Some block \<Rightarrow>
             if acb_Type block = ''tool_use'' then
               (let idx = (case ase_Index streamEvent of
                             Some i \<Rightarrow> i | None \<Rightarrow> currentToolCallIndex st)
                in ([toolcall_event (tool_start (acb_ID block) (acb_Name block) idx)], False,
                    st\<lparr>toolCallIndices := (toolCallIndices st)(acb_ID block \<mapsto> idx),
                       currentToolCallIndex := currentToolCallIndex st + 1\<rparr>))
             else ([], False, st))
      else if ase_Type streamEvent = ''message_stop'' then
        ([finish_event ''stop''], True, st)
      else if ase_Type streamEvent = ''message_delta'' then
        (case ase_Delta streamEvent of
           None \<Rightarrow> ([], False, st)
         | Some delta \<Rightarrow>
             if ad_StopReason delta \<noteq> [] then
               ([finish_event (if ad_StopReason delta = ''tool_use'' then ''tool_calls''
                               else ad_StopReason delta)], False, st)
             else ([], False, st))
      else ([], False, st))"

fun anthropic_stream ::
  "(string \<Rightarrow> error + 'j anthropicStreamEvent) \<Rightarrow> decoder_state \<Rightarrow> string list
     \<Rightarrow> StreamEvent list" where
  "anthropic_stream um st [] = []"
| "anthropic_stream um st (line # lines) =
     (if \<not> HasPrefix line ''data: '' then anthropic_stream um st lines
      else case um (TrimPrefix line ''data: '') of
        Inl err \<Rightarrow> anthropic_stream um st lines
      | Inr streamEvent \<Rightarrow>
          (case anthropic_frame st streamEvent of
             (events, return, st') \<Rightarrow>
               if return then events else events @ anthropic_stream um st' lines))"


section \<open>Ollama\<close>

text \<open>
  The provider's configuration; \<open>'c\<close> stands for \<open>*http.Client\<close>.  The setters
  mutate the receiver and return it: here they return the provider after the call.
\<close>

record 'c ollama =
  ol_baseURL :: string
  ol_model :: string
  ol_httpClient :: 'c

definition ollama_WithAPIKey :: "string \<Rightarrow> 'c ollama \<Rightarrow> 'c ollama" where
  "ollama_WithAPIKey key p = p"

definition ollama_WithBaseURL :: "string \<Rightarrow> 'c ollama \<Rightarrow> 'c ollama" where
  "ollama_WithBaseURL url p = p\<lparr>ol_baseURL := url\<rparr>"

definition ollama_WithModel :: "string \<Rightarrow> 'c ollama \<Rightarrow> 'c ollama" where
  "ollama_WithModel model p = p\<lparr>ol_model := model\<rparr>"

text \<open>The model \<open>Chat\<close> and \<open>Stream\<close> send: the request's, or else the provider's.\<close>

definition ollama_effective_model :: "'c ollama \<Rightarrow> ('f, 'j) ChatRequest \<Rightarrow> string" where
  "ollama_effective_model p req = (if req_Model req = [] then ol_model p else req_Model req)"

text \<open>
  The fields of the client library's \<open>api.ChatResponse\<close> that the provider reads
  (\<open>CreatedAt\<close> as its Unix time).
\<close>

record 'j apiToolCallFunction =
  atf_Name :: string
  atf_Arguments :: 'j

record 'j apiToolCall =
  atc_Function :: "'j apiToolCallFunction"

record 'j apiMessage =
  apm_Role :: string
  apm_Content :: string
  apm_ToolCalls :: "'j apiToolCall list"

record 'j apiChatResponse =
  api_Message :: "'j apiMessage"
  api_Done :: bool
  api_DoneReason :: string
  api_PromptEvalCount :: "64 word"
  api_EvalCount :: "64 word"
  api_CreatedAt :: "64 word"

text \<open>\<open>fmt.Sprintf("%d", n)\<close> for a number that is not negative.\<close>

fun decimal :: "nat \<Rightarrow> string" where
  "decimal n =
     (if n < 10 then [char_of (n + 48)]
      else decimal (n div 10) @ [char_of (n mod 10 + 48)])"

text \<open>The loop over \<open>resp.Message.ToolCalls\<close>, at position \<open>i\<close>.\<close>

fun ollama_tool_calls :: "('j \<Rightarrow> string) \<Rightarrow> nat \<Rightarrow> 'j apiToolCall list \<Rightarrow> ToolCall list" where
  "ollama_tool_calls marshal i [] = []"
| "ollama_tool_calls marshal i (tc # tcs) =
     \<lparr>tc_ID = ''call_'' @ decimal i, tc_Type = ''function'',
      tc_Function = \<lparr>fc_Name = atf_Name (atc_Function tc),
                     fc_Arguments = marshal (atf_Arguments (atc_Function tc))\<rparr>,
      tc_Index = int i\<rparr> # ollama_tool_calls marshal (Suc i) tcs"

text \<open>\<open>now\<close> is \<open>time.Now().UnixNano()\<close>, not negative.\<close>

definition ollama_toProviderResponse ::
  "('j \<Rightarrow> string) \<Rightarrow> nat \<Rightarrow> 'j apiChatResponse \<Rightarrow> string \<Rightarrow> ChatResponse" where
  "ollama_toProviderResponse marshal now resp model =
     (let toolCalls = ollama_tool_calls marshal 0 (apm_ToolCalls (api_Message resp));
          finishReason = (if api_DoneReason resp = ''length'' then FinishReasonLength
                          else if length toolCalls > 0 then FinishReasonToolCalls
                          else FinishReasonStop)
      in \<lparr>resp_ID = ''ollama-'' @ decimal now,
          resp_Object = ''chat.completion'',
          resp_Created = api_CreatedAt resp,
          resp_Model = model,
          resp_Choices =
            [\<lparr>ch_Index = 0,
              ch_Message = \<lparr>msg_Role = RoleAssistant, msg_Content = apm_Content (api_Message resp),
                            msg_ToolCalls = toolCalls, msg_ToolCallID = [], msg_Name = []\<rparr>,
              ch_FinishReason = finishReason\<rparr>],
          resp_Usage = \<lparr>PromptTokens = api_PromptEvalCount resp,
                        CompletionTokens = api_EvalCount resp,
                        TotalTokens = api_PromptEvalCount resp + api_EvalCount resp\<rparr>\<rparr>)"

text \<open>The callback \<open>Stream\<close> hands to the client: the event it sends for one response.\<close>

definition ollama_event :: "('j \<Rightarrow> string) \<Rightarrow> 'j apiChatResponse \<Rightarrow> StreamEvent" where
  "ollama_event marshal resp =
     (let toolCalls = ollama_tool_calls marshal 0 (apm_ToolCalls (api_Message resp));
          finishReason =
            (if api_Done resp then
               (if api_DoneReason resp = ''length'' then FinishReasonLength
                else if length toolCalls > 0 then FinishReasonToolCalls
                else FinishReasonStop)
             else [])
      in \<lparr>ev_Delta = \<lparr>d_Content = apm_Content (api_Message resp), d_ToolCalls = toolCalls\<rparr>,
          ev_FinishReason = finishReason,
          ev_Err = None\<rparr>)"

text \<open>
  The producer goroutine: the client calls the callback on each response it reads,
  and the error \<open>client.Chat\<close> returns, if any, is sent as a last event.
\<close>

definition ollama_stream ::
  "('j \<Rightarrow> string) \<Rightarrow> 'j apiChatResponse list \<Rightarrow> error option \<Rightarrow> StreamEvent list" where
  "ollama_stream marshal resps err =
     map (ollama_event marshal) resps
     @ (case err of
          Some e \<Rightarrow> [\<lparr>ev_Delta = zeroDelta, ev_FinishReason = [], ev_Err = Some e\<rparr>]
        | None \<Rightarrow> [])"

section \<open>Properties of events\<close>

text \<open>Which of the three parts of an event are populated.\<close>

definition has_delta :: "StreamEvent \<Rightarrow> bool" where
  "has_delta e = (d_Content (ev_Delta e) \<noteq> [] \<or> d_ToolCalls (ev_Delta e) \<noteq> [])"

definition has_finish :: "StreamEvent \<Rightarrow> bool" where
  "has_finish e = (ev_FinishReason e \<noteq> [])"

definition has_error :: "StreamEvent \<Rightarrow> bool" where
  "has_error e = (ev_Err e \<noteq> None)"

definition populated :: "StreamEvent \<Rightarrow> nat" where
  "populated e =
     (if has_delta e then 1 else 0) + (if has_finish e then 1 else 0)
     + (if has_error e then 1 else 0)"



subsection \<open>Events and the vendor frames they copy\<close>

text \<open>The first choices of the chunks the openai and mistral decoders decode from
  the data lines of a stream (the \<open>[DONE]\<close> line is not decoded).\<close>

definition first_choices ::
  "(string \<Rightarrow> error + openaiStreamChunk) \<Rightarrow> string list \<Rightarrow> openaiStreamChoice list" where
  "first_choices um lines =
     concat (map (\<lambda>line.
        if HasPrefix line ''data: '' \<and> TrimPrefix line ''data: '' \<noteq> ''[DONE]'' then
          (case um (TrimPrefix line ''data: '') of
             Inr chunk \<Rightarrow> (case ock_Choices chunk of [] \<Rightarrow> [] | choice # _ \<Rightarrow> [choice])
           | Inl err \<Rightarrow> [])
        else []) lines)"

text \<open>Event \<open>e\<close> has no error and holds the content, the tool calls (field by
  field) and the finish reason of the choice, whatever they are.\<close>

definition copies_choice :: "openaiStreamChoice \<Rightarrow> StreamEvent \<Rightarrow> bool" where
  "copies_choice choice e =
     (ev_Err e = None
      \<and> d_Content (ev_Delta e) = od_Content (osc_Delta choice)
      \<and> d_ToolCalls (ev_Delta e) =
          map (\<lambda>tc. \<lparr>tc_ID = otc_ID tc, tc_Type = otc_Type tc,
                     tc_Function = \<lparr>fc_Name = ofc_Name (otc_Function tc),
                                    fc_Arguments = ofc_Arguments (otc_Function tc)\<rparr>,
                     tc_Index = otc_Index tc\<rparr>)
            (od_ToolCalls (osc_Delta choice))
      \<and> ev_FinishReason e = osc_FinishReason choice)"

text \<open>Event \<open>e\<close> has no error and holds the content and the tool calls of the
  ollama response, numbered from 0, and the finish reason of a response that is
  done (none before).\<close>

definition copies_response :: "('j \<Rightarrow> string) \<Rightarrow> 'j apiChatResponse \<Rightarrow> StreamEvent \<Rightarrow> bool" where
  "copies_response marshal resp e =
     (ev_Err e = None
      \<and> d_Content (ev_Delta e) = apm_Content (api_Message resp)
      \<and> d_ToolCalls (ev_Delta e) =
          map (\<lambda>(i, tc). \<lparr>tc_ID = ''call_'' @ decimal i, tc_Type = ''function'',
                          tc_Function = \<lparr>fc_Name = atf_Name (atc_Function tc),
                                         fc_Arguments = marshal (atf_Arguments (atc_Function tc))\<rparr>,
                          tc_Index = int i\<rparr>)
            (enumerate 0 (apm_ToolCalls (api_Message resp)))
      \<and> ev_FinishReason e =
          (if \<not> api_Done resp then []
           else if api_DoneReason resp = ''length'' then ''length''
           else if apm_ToolCalls (api_Message resp) \<noteq> [] then ''tool_calls''
           else ''stop''))"

subsection \<open>Tool-call fragments and the frames they come from\<close>


definition is_tool_start :: "'j anthropicStreamEvent \<Rightarrow> bool" where
  "is_tool_start f =
     (ase_Type f = ''content_block_start''
      \<and> (case ase_ContentBlock f of
            Some block \<Rightarrow> acb_Type block = ''tool_use'' | None \<Rightarrow> False))"

definition start_id :: "'j anthropicStreamEvent \<Rightarrow> string" where
  "start_id f = (case ase_ContentBlock f of Some block \<Rightarrow> acb_ID block | None \<Rightarrow> [])"



definition partial_json :: "'j anthropicStreamEvent \<Rightarrow> string" where
  "partial_json f = (case ase_Delta f of Some delta \<Rightarrow> ad_PartialJSON delta | None \<Rightarrow> [])"






section \<open>Sample inputs\<close>

definition sys_msg :: "string \<Rightarrow> Message" where
  "sys_msg t = \<lparr>msg_Role = ''system'', msg_Content = t, msg_ToolCalls = [],
     msg_ToolCallID = [], msg_Name = []\<rparr>"

definition two_systems :: "(unit, unit) ChatRequest" where
  "two_systems = \<lparr>req_Messages = [sys_msg ''be terse'', sys_msg ''be verbose''], req_Model = [],
     req_Temperature = None, req_TopP = None, req_MaxTokens = None, req_Stream = False,
     req_Stop = [], req_Tools = [], req_ToolChoice = None, req_PresencePenalty = None,
     req_FrequencyPenalty = None, req_RandomSeed = None\<rparr>"

definition odd_usage :: openaiChatCompletionResponse where
  "odd_usage = \<lparr>oresp_ID = ''r1'', oresp_Object = ''chat.completion'', oresp_Created = 0,
     oresp_Model = ''gpt-4o'', oresp_Choices = [],
     oresp_Usage = \<lparr>ou_PromptTokens = 1, ou_CompletionTokens = 2, ou_TotalTokens = 0\<rparr>\<rparr>"

text \<open>
  Sample decoders: they agree with \<open>json.Unmarshal\<close> on the payloads named here,
  which are the only ones the examples below feed them.  \<open>bad_frame\<close> is
  valid JSON that fits no frame type: it has a number where anthropic's struct has
  the string \<open>Type\<close> and where the chunk struct has the slice \<open>Choices\<close>.
\<close>

definition hi_stop_payload :: string where
  \<open>hi_stop_payload = ''{"choices":[{"index":0,"delta":{"content":"Hi"},"finish_reason":"stop"}]}''\<close>

definition bad_frame :: string where
  \<open>bad_frame = ''{"type":7,"choices":7}''\<close>

definition hi_stop_chunk :: openaiStreamChunk where
  "hi_stop_chunk = \<lparr>ock_ID = [], ock_Object = [], ock_Created = 0, ock_Model = [],
     ock_Choices = [\<lparr>osc_Index = 0,
                     osc_Delta = \<lparr>od_Role = [], od_Content = ''Hi'', od_ToolCalls = []\<rparr>,
                     osc_FinishReason = ''stop''\<rparr>]\<rparr>"

text \<open>A last response of ollama that still carries text.\<close>

definition final_hi :: "unit apiChatResponse" where
  "final_hi = \<lparr>api_Message = \<lparr>apm_Role = ''assistant'', apm_Content = ''Hi'', apm_ToolCalls = []\<rparr>,
     api_Done = True, api_DoneReason = ''stop'', api_PromptEvalCount = 1, api_EvalCount = 1,
     api_CreatedAt = 0\<rparr>"

definition type_error :: error where
  "type_error = ErrorMsg ''json: cannot unmarshal number''"

definition sample_unmarshal_chunk :: "string \<Rightarrow> error + openaiStreamChunk" where
  "sample_unmarshal_chunk data =
     (if data = hi_stop_payload then Inr hi_stop_chunk
      else if data = bad_frame then Inl type_error
      else Inl (ErrorMsg ''not a sample payload''))"

definition start_frame :: "int option \<Rightarrow> string \<Rightarrow> string \<Rightarrow> unit anthropicStreamEvent" where
  "start_frame i ident name =
     \<lparr>ase_Type = ''content_block_start'', ase_Index = i, ase_Delta = None,
      ase_ContentBlock = Some \<lparr>acb_Type = ''tool_use'', acb_ID = ident, acb_Name = name,
                               acb_Input = None, acb_Text = []\<rparr>,
      ase_Message = None\<rparr>"

definition delta_frame :: "string \<Rightarrow> string \<Rightarrow> string \<Rightarrow> unit anthropicStreamEvent" where
  "delta_frame kind t partial =
     \<lparr>ase_Type = ''content_block_delta'', ase_Index = Some 0,
      ase_Delta = Some \<lparr>ad_Type = kind, ad_Text = t, ad_PartialJSON = partial,
                        ad_StopReason = []\<rparr>,
      ase_ContentBlock = None, ase_Message = None\<rparr>"

definition start_x0 :: string where
  \<open>start_x0 = ''{"type":"content_block_start","index":0,"content_block":{"type":"tool_use","id":"x","name":"f"}}''\<close>

definition start_x1 :: string where
  \<open>start_x1 = ''{"type":"content_block_start","index":1,"content_block":{"type":"tool_use","id":"x","name":"f"}}''\<close>

definition start_a :: string where
  \<open>start_a = ''{"type":"content_block_start","content_block":{"type":"tool_use","id":"a","name":"f"}}''\<close>

definition start_b0 :: string where
  \<open>start_b0 = ''{"type":"content_block_start","index":0,"content_block":{"type":"tool_use","id":"b","name":"g"}}''\<close>

definition args_0 :: string where
  \<open>args_0 = ''{"type":"content_block_delta","index":0,"delta":{"type":"input_json_delta","partial_json":"{}"}}''\<close>

definition text_hi :: string where
  \<open>text_hi = ''{"type":"content_block_delta","index":0,"delta":{"type":"text_delta","text":"Hi"}}''\<close>

definition args_at :: "int \<Rightarrow> string \<Rightarrow> unit anthropicStreamEvent" where
  "args_at i partial =
     \<lparr>ase_Type = ''content_block_delta'', ase_Index = Some i,
      ase_Delta = Some \<lparr>ad_Type = ''input_json_delta'', ad_Text = [],
                        ad_PartialJSON = partial, ad_StopReason = []\<rparr>,
      ase_ContentBlock = None, ase_Message = None\<rparr>"

definition start_y1 :: string where
  \<open>start_y1 = ''{"type":"content_block_start","index":1,"content_block":{"type":"tool_use","id":"y","name":"g"}}''\<close>

definition start_c :: string where
  \<open>start_c = ''{"type":"content_block_start","content_block":{"type":"tool_use","id":"c","name":"g"}}''\<close>

definition open_0 :: string where
  \<open>open_0 = ''{"type":"content_block_delta","index":0,"delta":{"type":"input_json_delta","partial_json":"{"}}''\<close>

definition close_0 :: string where
  \<open>close_0 = ''{"type":"content_block_delta","index":0,"delta":{"type":"input_json_delta","partial_json":"}"}}''\<close>

definition open_1 :: string where
  \<open>open_1 = ''{"type":"content_block_delta","index":1,"delta":{"type":"input_json_delta","partial_json":"[1"}}''\<close>

definition close_1 :: string where
  \<open>close_1 = ''{"type":"content_block_delta","index":1,"delta":{"type":"input_json_delta","partial_json":"]"}}''\<close>

definition sample_unmarshal_event :: "string \<Rightarrow> error + unit anthropicStreamEvent" where
  "sample_unmarshal_event data =
     (if data = start_x0 then Inr (start_frame (Some 0) ''x'' ''f'')
      else if data = start_x1 then Inr (start_frame (Some 1) ''x'' ''f'')
      else if data = start_y1 then Inr (start_frame (Some 1) ''y'' ''g'')
      else if data = start_a then Inr (start_frame None ''a'' ''f'')
      else if data = start_c then Inr (start_frame None ''c'' ''g'')
      else if data = start_b0 then Inr (start_frame (Some 0) ''b'' ''g'')
      else if data = args_0 then Inr (delta_frame ''input_json_delta'' [] ''{}'')
      else if data = open_0 then Inr (args_at 0 ''{'')
      else if data = close_0 then Inr (args_at 0 ''}'')
      else if data = open_1 then Inr (args_at 1 ''[1'')
      else if data = close_1 then Inr (args_at 1 '']'')
      else if data = text_hi then Inr (delta_frame ''text_delta'' ''Hi'' [])
      else if data = bad_frame then Inl type_error
      else Inl (ErrorMsg ''not a sample payload''))"



section \<open>The stream reader\<close>

text \<open>
  C9.  Once \<open>Recv\<close> meets the closed, drained channel (or the flag \<open>done\<close> it
  set when it did), it returns the zero event with \<open>ErrStreamClosed\<close>, and so does
  every later \<open>Recv\<close>: none of them blocks, and the reader no longer changes.
\<close>

theorem Recv_closed_is_sticky:
  assumes "rd_done s \<or> rd_events s = Chan [] True"
  shows "\<exists>s'. Recv s = Some ((zeroStreamEvent, Some ErrStreamClosed), s')
           \<and> (\<forall>n. Recv_times n s' = Some s'
                  \<and> Recv s' = Some ((zeroStreamEvent, Some ErrStreamClosed), s'))"
proof -
  define s' where "s' = (if rd_done s then s else s\<lparr>rd_done := True\<rparr>)"
  have first: "Recv s = Some ((zeroStreamEvent, Some ErrStreamClosed), s')"
    using assms by (auto simp: s'_def)
  have "rd_done s'" by (simp add: s'_def)
  then have again: "Recv s' = Some ((zeroStreamEvent, Some ErrStreamClosed), s')"
    by simp
  have "Recv_times n s' = Some s'" for n
    by (induction n) (simp_all add: again del: Recv.simps)
  with first again show ?thesis by blast
qed

text \<open>C9 at a reader whose producer has closed the channel without an event.\<close>

theorem Recv_closed_is_sticky_witness:
  "rd_events (NewStreamReader (Chan [] True) None) = Chan [] True
   \<and> (\<exists>s'. Recv (NewStreamReader (Chan [] True) None)
              = Some ((zeroStreamEvent, Some ErrStreamClosed), s')
           \<and> (\<forall>n. Recv_times n s' = Some s'
                  \<and> Recv s' = Some ((zeroStreamEvent, Some ErrStreamClosed), s')))"
  using Recv_closed_is_sticky [of "NewStreamReader (Chan [] True) None"]
  by (simp add: NewStreamReader_def)

text \<open>
  The readers of openai, mistral and anthropic close the response body: a second
  \<open>Close\<close> does it again and leaves the resources as the first did.
\<close>

lemma body_Close_twice:
  "Close_twice (openai_reader events) w = Inr (w\<lparr>body_closed := True\<rparr>)"
  "Close_twice (mistral_reader events) w = Inr (w\<lparr>body_closed := True\<rparr>)"
  "Close_twice (anthropic_reader events) w = Inr (w\<lparr>body_closed := True\<rparr>)"
  by (simp_all add: Close_twice_def openai_reader_def mistral_reader_def
        anthropic_reader_def NewStreamReader_def)

text \<open>
  C2.  \<open>Close\<close> runs the hook on every call.  The hook of the reader that ollama's
  \<open>Stream\<close> returns closes the channel \<open>done\<close>: the second \<open>Close\<close> closes a
  closed channel, and panics.
\<close>

theorem ollama_Close_twice_panics:
  "Close_twice (ollama_reader events) fresh = Inl CloseOfClosedChannel"
  by (simp add: Close_twice_def ollama_reader_def NewStreamReader_def fresh_def)

section \<open>The provider facade\<close>

text \<open>
  C10.  \<open>WithAPIKey\<close> of the ollama provider returns the provider as it was, for
  every key: base URL, model and HTTP client are unchanged, and so is the model a
  later \<open>Chat\<close> or \<open>Stream\<close> resolves.
\<close>

theorem ollama_WithAPIKey_discards_key:
  "ollama_WithAPIKey key p = p
   \<and> ol_baseURL (ollama_WithAPIKey key p) = ol_baseURL p
   \<and> ol_model (ollama_WithAPIKey key p) = ol_model p
   \<and> ol_httpClient (ollama_WithAPIKey key p) = ol_httpClient p
   \<and> ollama_effective_model (ollama_WithAPIKey key p) req = ollama_effective_model p req"
  by (simp add: ollama_WithAPIKey_def)

section \<open>The request mappers\<close>

text \<open>
  C8.  With \<open>MaxTokens\<close> unset the anthropic mapper sends 8192, with \<open>MaxTokens\<close>
  set it sends the caller's value; the openai and mistral mappers pass the optional
  field on as it is, absent when unset.
\<close>

theorem maxTokens_default:
  "areq_MaxTokens (toAnthropicRequest parse (req\<lparr>req_MaxTokens := None\<rparr>) model) = 8192
   \<and> areq_MaxTokens (toAnthropicRequest parse (req\<lparr>req_MaxTokens := Some n\<rparr>) model) = n
   \<and> oreq_MaxTokens (toOpenAIRequest req model) = req_MaxTokens req
   \<and> mreq_MaxTokens (toMistralRequest req model) = req_MaxTokens req"
  by (simp add: toAnthropicRequest_def toOpenAIRequest_def toMistralRequest_def
        defaultMaxTokens_def split: prod.splits)

text \<open>The loop of \<open>toAnthropicRequest\<close> overwrites \<open>systemPrompt\<close> at each system
  message.\<close>

lemma anthropic_messages_system:
  "fst (anthropic_messages parse sys acc msgs) =
     (case filter (\<lambda>m. msg_Role m = RoleSystem) msgs of
        [] \<Rightarrow> sys | m # ms \<Rightarrow> msg_Content (last (m # ms)))"
proof (induction msgs arbitrary: sys acc)
  case Nil
  show ?case by simp
next
  case (Cons msg msgs)
  show ?case
  proof (cases "msg_Role msg = RoleSystem")
    case True
    then show ?thesis
      using Cons.IH [of "msg_Content msg" acc] by (simp split: list.splits)
  next
    case False
    then show ?thesis
      using Cons.IH by (simp add: Let_def)
  qed
qed

text \<open>
  C3, as amended.  The top-level \<open>system\<close> field of the anthropic request is the
  content of the last system message of the request (empty when there is none):
  each system message overwrites the one before it.
\<close>

theorem anthropic_system_is_last:
  "areq_System (toAnthropicRequest parse req model) =
     (case filter (\<lambda>m. msg_Role m = RoleSystem) (req_Messages req) of
        [] \<Rightarrow> [] | m # ms \<Rightarrow> msg_Content (last (m # ms)))"
  using anthropic_messages_system [of parse "[]" "[]" "req_Messages req"]
  by (cases "anthropic_messages parse [] [] (req_Messages req)")
     (simp add: toAnthropicRequest_def)

text \<open>
  C3 as stated fails: of the system messages \<open>be terse\<close> and \<open>be verbose\<close>, in
  this order, the second one reaches the \<open>system\<close> field, not the first.
\<close>

theorem anthropic_first_system_counterexample:
  "areq_System (toAnthropicRequest (\<lambda>t. None) two_systems ''m'') = ''be verbose''
   \<and> areq_System (toAnthropicRequest (\<lambda>t. None) two_systems ''m'')
       \<noteq> msg_Content (hd (filter (\<lambda>m. msg_Role m = RoleSystem) (req_Messages two_systems)))"
  by (simp add: toAnthropicRequest_def two_systems_def sys_msg_def RoleSystem_def)

section \<open>The response mappers\<close>

text \<open>
  C6, as amended.  The anthropic and ollama mappers compute \<open>TotalTokens\<close> as the
  (64-bit) sum of \<open>PromptTokens\<close> and \<open>CompletionTokens\<close>; the openai and mistral
  mappers copy the three counts of the wire response, the total included.
\<close>

theorem usage_total:
  "TotalTokens (resp_Usage (anthropic_toProviderResponse marshal aresp))
     = PromptTokens (resp_Usage (anthropic_toProviderResponse marshal aresp))
       + CompletionTokens (resp_Usage (anthropic_toProviderResponse marshal aresp))
   \<and> TotalTokens (resp_Usage (ollama_toProviderResponse marshal' now oresp model))
     = PromptTokens (resp_Usage (ollama_toProviderResponse marshal' now oresp model))
       + CompletionTokens (resp_Usage (ollama_toProviderResponse marshal' now oresp model))
   \<and> resp_Usage (openai_toProviderResponse r) =
       \<lparr>PromptTokens = ou_PromptTokens (oresp_Usage r),
        CompletionTokens = ou_CompletionTokens (oresp_Usage r),
        TotalTokens = ou_TotalTokens (oresp_Usage r)\<rparr>
   \<and> resp_Usage (mistral_toProviderResponse r) =
       \<lparr>PromptTokens = ou_PromptTokens (oresp_Usage r),
        CompletionTokens = ou_CompletionTokens (oresp_Usage r),
        TotalTokens = ou_TotalTokens (oresp_Usage r)\<rparr>"
  by (simp add: anthropic_toProviderResponse_def ollama_toProviderResponse_def Let_def
        openai_toProviderResponse_def mistral_toProviderResponse_def split: prod.splits)

text \<open>
  C6 as stated fails: an openai wire response with 1 prompt token, 2 completion
  tokens and a total of 0 is mapped to a response whose total is not the sum.
\<close>

theorem openai_usage_counterexample:
  "TotalTokens (resp_Usage (openai_toProviderResponse odd_usage))
     \<noteq> PromptTokens (resp_Usage (openai_toProviderResponse odd_usage))
       + CompletionTokens (resp_Usage (openai_toProviderResponse odd_usage))"
  by (simp add: openai_toProviderResponse_def odd_usage_def)

text \<open>
  What the anthropic normalisation does map: \<open>tool_use\<close> in both paths,
  \<open>end_turn\<close> in the response mapper only; every other reason is returned as
  it is.
\<close>

lemma anthropic_finish_reason_table:
  "anthropic_finish_reason ''tool_use'' = ''tool_calls''"
  "anthropic_finish_reason ''end_turn'' = ''stop''"
  "r \<noteq> ''tool_use'' \<Longrightarrow> r \<noteq> ''end_turn'' \<Longrightarrow> anthropic_finish_reason r = r"
  by (simp_all add: anthropic_finish_reason_def)

lemma anthropic_stream_stop_reason:
  "r \<noteq> [] \<Longrightarrow>
   fst (anthropic_frame st
        \<lparr>ase_Type = ''message_delta'', ase_Index = i,
         ase_Delta = Some \<lparr>ad_Type = k, ad_Text = t, ad_PartialJSON = j, ad_StopReason = r\<rparr>,
         ase_ContentBlock = b, ase_Message = m\<rparr>)
     = [finish_event (if r = ''tool_use'' then ''tool_calls'' else r)]"
  by (simp add: anthropic_frame_def)

text \<open>
  C4.  The anthropic stop reason \<open>max_tokens\<close> is not mapped to \<open>length\<close>: the
  response mapper returns it as it is, and so does the stream decoder at a
  \<open>message_delta\<close> frame.
\<close>

theorem anthropic_max_tokens_verbatim:
  "map ch_FinishReason (resp_Choices (anthropic_toProviderResponse marshal
        (resp\<lparr>aresp_StopReason := ''max_tokens''\<rparr>))) = [''max_tokens'']
   \<and> fst (anthropic_frame st
        \<lparr>ase_Type = ''message_delta'', ase_Index = None,
         ase_Delta = Some \<lparr>ad_Type = [], ad_Text = [], ad_PartialJSON = [],
                           ad_StopReason = ''max_tokens''\<rparr>,
         ase_ContentBlock = None, ase_Message = None\<rparr>) = [finish_event ''max_tokens'']
   \<and> ''max_tokens'' \<noteq> FinishReasonLength"
  by (simp add: anthropic_toProviderResponse_def anthropic_finish_reason_def
        anthropic_frame_def FinishReasonLength_def split: prod.splits)

section \<open>The stream decoders\<close>

lemmas sample_defs = sample_unmarshal_event_def start_x0_def start_x1_def start_a_def
  start_b0_def args_0_def text_hi_def bad_frame_def start_frame_def delta_frame_def
  start_y1_def start_c_def open_0_def close_0_def open_1_def close_1_def args_at_def
  HasPrefix_def TrimPrefix_def anthropic_frame_def initial_state_def type_error_def

lemmas chunk_defs = sample_unmarshal_chunk_def hi_stop_payload_def bad_frame_def
  hi_stop_chunk_def HasPrefix_def TrimPrefix_def type_error_def

subsection \<open>What an event carries\<close>

lemma frame_events_exclusive:
  "e \<in> set (fst (anthropic_frame st f)) \<Longrightarrow> \<not> has_error e \<and> \<not> (has_delta e \<and> has_finish e)"
  by (auto simp: anthropic_frame_def has_error_def has_delta_def has_finish_def
        content_event_def toolcall_event_def finish_event_def zeroDelta_def Let_def
      split: if_splits option.splits)

lemma anthropic_stream_exclusive:
  "e \<in> set (anthropic_stream um st lines) \<Longrightarrow> \<not> has_error e \<and> \<not> (has_delta e \<and> has_finish e)"
proof (induction lines arbitrary: st)
  case Nil
  then show ?case by simp
next
  case (Cons line lines)
  show ?case
  proof (cases "HasPrefix line ''data: ''")
    case False
    with Cons show ?thesis by simp
  next
    case True
    show ?thesis
    proof (cases "um (TrimPrefix line ''data: '')")
      case (Inl err)
      with True Cons show ?thesis by simp
    next
      case (Inr f)
      obtain evs ret st' where fr: "anthropic_frame st f = (evs, ret, st')"
        by (cases "anthropic_frame st f") auto
      with True Inr Cons.prems
      have "e \<in> set evs \<or> e \<in> set (anthropic_stream um st' lines)"
        by (auto split: if_splits)
      then show ?thesis
        using frame_events_exclusive [of e st f] fr Cons.IH [of st'] by auto
    qed
  qed
qed

lemma parse_chunk_error_only:
  "has_error (parse_chunk_error err) \<and> \<not> has_delta (parse_chunk_error err)
   \<and> \<not> has_finish (parse_chunk_error err)"
  by (simp add: parse_chunk_error_def has_error_def has_delta_def has_finish_def zeroDelta_def)

lemma chunk_event_copies:
  "copies_choice choice (openai_event choice)" "copies_choice choice (mistral_event choice)"
  by (simp_all add: copies_choice_def openai_event_def mistral_event_def
        openai_stream_toolcall_def mistral_stream_toolcall_def)

lemma first_choices_Cons:
  "first_choices um (line # lines) =
     (if HasPrefix line ''data: '' \<and> TrimPrefix line ''data: '' \<noteq> ''[DONE]'' then
        (case um (TrimPrefix line ''data: '') of
           Inr chunk \<Rightarrow> (case ock_Choices chunk of [] \<Rightarrow> [] | choice # _ \<Rightarrow> [choice])
         | Inl err \<Rightarrow> [])
      else []) @ first_choices um lines"
  unfolding first_choices_def by simp

lemma first_choices_tail:
  "set (first_choices um lines) \<subseteq> set (first_choices um (line # lines))"
  by (subst first_choices_Cons) (simp only: set_append Un_upper2)

lemma first_choices_head:
  "HasPrefix line ''data: '' \<Longrightarrow> TrimPrefix line ''data: '' \<noteq> ''[DONE]''
     \<Longrightarrow> um (TrimPrefix line ''data: '') = Inr chunk \<Longrightarrow> ock_Choices chunk = choice # others
     \<Longrightarrow> choice \<in> set (first_choices um (line # lines))"
  by (subst first_choices_Cons) simp

lemma openai_stream_events:
  assumes "e \<in> set (openai_stream um lines)"
  shows "(\<exists>err. e = parse_chunk_error err)
         \<or> (\<exists>choice\<in>set (first_choices um lines). e = openai_event choice)"
  using assms
proof (induction lines)
  case Nil
  then show ?case by simp
next
  case (Cons line lines)
  note tail = first_choices_tail [of um lines line]
  show ?case
  proof (cases "HasPrefix line ''data: '' \<and> TrimPrefix line ''data: '' \<noteq> ''[DONE]''")
    case False
    with Cons.prems have "e \<in> set (openai_stream um lines)"
      by (auto simp: Let_def split: if_splits)
    from Cons.IH [OF this] tail show ?thesis by blast
  next
    case True
    show ?thesis
    proof (cases "um (TrimPrefix line ''data: '')")
      case (Inl err)
      with True Cons.prems show ?thesis by (auto simp: Let_def)
    next
      case (Inr chunk)
      show ?thesis
      proof (cases "ock_Choices chunk")
        case Nil
        with True Inr Cons.prems have "e \<in> set (openai_stream um lines)"
          by (auto simp: Let_def)
        from Cons.IH [OF this] tail show ?thesis by blast
      next
        case (Cons choice others)
        with True Inr Cons.prems
        have "e = openai_event choice \<or> e \<in> set (openai_stream um lines)"
          by (auto simp: Let_def)
        then show ?thesis
        proof
          assume "e = openai_event choice"
          moreover have "choice \<in> set (first_choices um (line # lines))"
            using True Inr Cons by (auto intro: first_choices_head)
          ultimately show ?thesis by blast
        next
          assume "e \<in> set (openai_stream um lines)"
          from Cons.IH [OF this] tail show ?thesis by blast
        qed
      qed
    qed
  qed
qed

lemma mistral_stream_events:
  assumes "e \<in> set (mistral_stream um lines)"
  shows "(\<exists>err. e = parse_chunk_error err)
         \<or> (\<exists>choice\<in>set (first_choices um lines). e = mistral_event choice)"
  using assms
proof (induction lines)
  case Nil
  then show ?case by simp
next
  case (Cons line lines)
  note tail = first_choices_tail [of um lines line]
  show ?case
  proof (cases "HasPrefix line ''data: '' \<and> TrimPrefix line ''data: '' \<noteq> ''[DONE]''")
    case False
    with Cons.prems have "e \<in> set (mistral_stream um lines)"
      by (auto simp: Let_def split: if_splits)
    from Cons.IH [OF this] tail show ?thesis by blast
  next
    case True
    show ?thesis
    proof (cases "um (TrimPrefix line ''data: '')")
      case (Inl err)
      with True Cons.prems show ?thesis by (auto simp: Let_def)
    next
      case (Inr chunk)
      show ?thesis
      proof (cases "ock_Choices chunk")
        case Nil
        with True Inr Cons.prems have "e \<in> set (mistral_stream um lines)"
          by (auto simp: Let_def)
        from Cons.IH [OF this] tail show ?thesis by blast
      next
        case (Cons choice others)
        with True Inr Cons.prems
        have "e = mistral_event choice \<or> e \<in> set (mistral_stream um lines)"
          by (auto simp: Let_def)
        then show ?thesis
        proof
          assume "e = mistral_event choice"
          moreover have "choice \<in> set (first_choices um (line # lines))"
            using True Inr Cons by (auto intro: first_choices_head)
          ultimately show ?thesis by blast
        next
          assume "e \<in> set (mistral_stream um lines)"
          from Cons.IH [OF this] tail show ?thesis by blast
        qed
      qed
    qed
  qed
qed

lemma ollama_tool_calls_enumerate:
  "ollama_tool_calls marshal i tcs =
     map (\<lambda>(i, tc). \<lparr>tc_ID = ''call_'' @ decimal i, tc_Type = ''function'',
                     tc_Function = \<lparr>fc_Name = atf_Name (atc_Function tc),
                                    fc_Arguments = marshal (atf_Arguments (atc_Function tc))\<rparr>,
                     tc_Index = int i\<rparr>)
       (enumerate i tcs)"
  by (induction tcs arbitrary: i) (simp_all del: decimal.simps)

lemma ollama_event_copies: "copies_response marshal resp (ollama_event marshal resp)"
  by (cases "apm_ToolCalls (api_Message resp)")
     (simp_all add: copies_response_def ollama_event_def Let_def ollama_tool_calls_enumerate
        FinishReasonLength_def FinishReasonToolCalls_def FinishReasonStop_def
        del: decimal.simps)

lemma ollama_stream_events:
  assumes "e \<in> set (ollama_stream marshal resps err)"
  shows "(has_error e \<and> \<not> has_delta e \<and> \<not> has_finish e)
         \<or> (\<exists>resp\<in>set resps. copies_response marshal resp e)"
  using assms ollama_event_copies [of marshal]
  by (auto simp: ollama_stream_def has_error_def has_delta_def has_finish_def zeroDelta_def
      split: option.splits)

text \<open>
  C1, as amended.  An event of the anthropic decoder never carries an error, and
  never a delta together with a finish reason.  An event of the openai, mistral
  or ollama decoder either carries an error and nothing else, or carries no error
  and copies the content, the tool calls and the finish reason of one vendor
  frame, whichever of them are populated there: both, one, or none.
\<close>

theorem events_exclusive:
  "(\<forall>e\<in>set (anthropic_stream uma st lines).
       \<not> has_error e \<and> \<not> (has_delta e \<and> has_finish e))
   \<and> (\<forall>e\<in>set (openai_stream umo lines').
         (has_error e \<and> \<not> has_delta e \<and> \<not> has_finish e)
         \<or> (\<exists>choice\<in>set (first_choices umo lines'). copies_choice choice e))
   \<and> (\<forall>e\<in>set (mistral_stream umm lines'').
         (has_error e \<and> \<not> has_delta e \<and> \<not> has_finish e)
         \<or> (\<exists>choice\<in>set (first_choices umm lines''). copies_choice choice e))
   \<and> (\<forall>e\<in>set (ollama_stream marshal resps err).
         (has_error e \<and> \<not> has_delta e \<and> \<not> has_finish e)
         \<or> (\<exists>resp\<in>set resps. copies_response marshal resp e))"
proof -
  have a: "\<not> has_error e \<and> \<not> (has_delta e \<and> has_finish e)"
    if "e \<in> set (anthropic_stream uma st lines)" for e
    using that by (rule anthropic_stream_exclusive)
  have o: "(has_error e \<and> \<not> has_delta e \<and> \<not> has_finish e)
         \<or> (\<exists>choice\<in>set (first_choices umo lines'). copies_choice choice e)"
    if "e \<in> set (openai_stream umo lines')" for e
    using openai_stream_events [OF that] parse_chunk_error_only chunk_event_copies(1)
    by blast
  have m: "(has_error e \<and> \<not> has_delta e \<and> \<not> has_finish e)
         \<or> (\<exists>choice\<in>set (first_choices umm lines''). copies_choice choice e)"
    if "e \<in> set (mistral_stream umm lines'')" for e
    using mistral_stream_events [OF that] parse_chunk_error_only chunk_event_copies(2)
    by blast
  have l: "(has_error e \<and> \<not> has_delta e \<and> \<not> has_finish e)
         \<or> (\<exists>resp\<in>set resps. copies_response marshal resp e)"
    if "e \<in> set (ollama_stream marshal resps err)" for e
    using that by (rule ollama_stream_events)
  from a o m l show ?thesis by blast
qed

lemma hi_stop_events:
  "openai_stream sample_unmarshal_chunk [''data: '' @ bad_frame, ''data: '' @ hi_stop_payload]
     = [parse_chunk_error type_error]"
  "openai_stream sample_unmarshal_chunk [''data: '' @ hi_stop_payload]
     = [openai_event (hd (ock_Choices hi_stop_chunk))]"
  "mistral_stream sample_unmarshal_chunk [''data: '' @ hi_stop_payload]
     = [mistral_event (hd (ock_Choices hi_stop_chunk))]"
  "first_choices sample_unmarshal_chunk [''data: '' @ hi_stop_payload]
     = [hd (ock_Choices hi_stop_chunk)]"
  "ollama_stream (\<lambda>j. ''{}'') [final_hi] None = [ollama_event (\<lambda>j. ''{}'') final_hi]"
  by (simp_all add: chunk_defs first_choices_def ollama_stream_def)

lemma hi_stop_populated:
  "has_delta (openai_event (hd (ock_Choices hi_stop_chunk)))"
  "has_finish (openai_event (hd (ock_Choices hi_stop_chunk)))"
  "has_delta (mistral_event (hd (ock_Choices hi_stop_chunk)))"
  "has_finish (mistral_event (hd (ock_Choices hi_stop_chunk)))"
  "has_delta (ollama_event (\<lambda>j. ''{}'') final_hi)"
  "has_finish (ollama_event (\<lambda>j. ''{}'') final_hi)"
  by (simp_all add: hi_stop_chunk_def final_hi_def openai_event_def mistral_event_def
        ollama_event_def has_delta_def has_finish_def FinishReasonStop_def)

text \<open>
  C1 as amended, at a text fragment from anthropic, at a chunk that fails to
  decode, and at a frame with the text \<open>Hi\<close> and the finish reason \<open>stop\<close>
  from each of openai, mistral and ollama: the event copies both.
\<close>

theorem events_exclusive_witness:
  "content_event ''Hi''
     \<in> set (anthropic_stream sample_unmarshal_event initial_state [''data: '' @ text_hi])
   \<and> \<not> has_error (content_event ''Hi'')
   \<and> \<not> (has_delta (content_event ''Hi'') \<and> has_finish (content_event ''Hi''))
   \<and> parse_chunk_error type_error
        \<in> set (openai_stream sample_unmarshal_chunk [''data: '' @ bad_frame])
   \<and> has_error (parse_chunk_error type_error)
   \<and> \<not> has_delta (parse_chunk_error type_error)
   \<and> \<not> has_finish (parse_chunk_error type_error)
   \<and> openai_event (hd (ock_Choices hi_stop_chunk))
        \<in> set (openai_stream sample_unmarshal_chunk [''data: '' @ hi_stop_payload])
   \<and> copies_choice (hd (ock_Choices hi_stop_chunk)) (openai_event (hd (ock_Choices hi_stop_chunk)))
   \<and> mistral_event (hd (ock_Choices hi_stop_chunk))
        \<in> set (mistral_stream sample_unmarshal_chunk [''data: '' @ hi_stop_payload])
   \<and> copies_choice (hd (ock_Choices hi_stop_chunk)) (mistral_event (hd (ock_Choices hi_stop_chunk)))
   \<and> ollama_event (\<lambda>j. ''{}'') final_hi \<in> set (ollama_stream (\<lambda>j. ''{}'') [final_hi] None)
   \<and> copies_response (\<lambda>j. ''{}'') final_hi (ollama_event (\<lambda>j. ''{}'') final_hi)
   \<and> ev_FinishReason (ollama_event (\<lambda>j. ''{}'') final_hi) = ''stop''
   \<and> d_Content (ev_Delta (ollama_event (\<lambda>j. ''{}'') final_hi)) = ''Hi''"
proof -
  let ?bad = "parse_chunk_error type_error"
  let ?o = "openai_event (hd (ock_Choices hi_stop_chunk))"
  let ?m = "mistral_event (hd (ock_Choices hi_stop_chunk))"
  let ?l = "ollama_event (\<lambda>j. ''{}'') final_hi"
  note bad = events_exclusive [of sample_unmarshal_event initial_state "[''data: '' @ text_hi]"
      sample_unmarshal_chunk "[''data: '' @ bad_frame]"
      sample_unmarshal_chunk "[''data: '' @ hi_stop_payload]"
      "\<lambda>j. ''{}''" "[final_hi]" None]
  note good = events_exclusive [of sample_unmarshal_event initial_state "[''data: '' @ text_hi]"
      sample_unmarshal_chunk "[''data: '' @ hi_stop_payload]"
      sample_unmarshal_chunk "[''data: '' @ hi_stop_payload]"
      "\<lambda>j. ''{}''" "[final_hi]" None]
  have a: "content_event ''Hi''
      \<in> set (anthropic_stream sample_unmarshal_event initial_state [''data: '' @ text_hi])"
    by (simp add: sample_defs)
  have b: "?bad \<in> set (openai_stream sample_unmarshal_chunk [''data: '' @ bad_frame])"
    by (simp add: chunk_defs)
  have none: "first_choices sample_unmarshal_chunk [''data: '' @ bad_frame] = []"
    by (simp add: chunk_defs first_choices_def)
  have o: "?o \<in> set (openai_stream sample_unmarshal_chunk [''data: '' @ hi_stop_payload])"
    and m: "?m \<in> set (mistral_stream sample_unmarshal_chunk [''data: '' @ hi_stop_payload])"
    and l: "?l \<in> set (ollama_stream (\<lambda>j. ''{}'') [final_hi] None)"
    unfolding hi_stop_events by simp_all
  have ne: "\<not> has_error ?o" "\<not> has_error ?m" "\<not> has_error ?l"
    by (simp_all add: has_error_def openai_event_def mistral_event_def ollama_event_def Let_def)
  have 1: "\<not> has_error (content_event ''Hi'')
      \<and> \<not> (has_delta (content_event ''Hi'') \<and> has_finish (content_event ''Hi''))"
    using good a by blast
  have 2: "has_error ?bad \<and> \<not> has_delta ?bad \<and> \<not> has_finish ?bad"
    using bad b none by (metis empty_iff empty_set)
  have "\<exists>choice\<in>set (first_choices sample_unmarshal_chunk [''data: '' @ hi_stop_payload]).
          copies_choice choice ?o"
    using good o ne(1) by blast
  then have 3: "copies_choice (hd (ock_Choices hi_stop_chunk)) ?o"
    unfolding hi_stop_events by simp
  have "\<exists>choice\<in>set (first_choices sample_unmarshal_chunk [''data: '' @ hi_stop_payload]).
          copies_choice choice ?m"
    using good m ne(2) by blast
  then have 4: "copies_choice (hd (ock_Choices hi_stop_chunk)) ?m"
    unfolding hi_stop_events by simp
  have "\<exists>resp\<in>set [final_hi]. copies_response (\<lambda>j. ''{}'') resp ?l"
    using good l ne(3) by blast
  then have 5: "copies_response (\<lambda>j. ''{}'') final_hi ?l"
    by simp
  have 6: "ev_FinishReason ?l = ''stop''" "d_Content (ev_Delta ?l) = ''Hi''"
    using 5 by (simp_all add: copies_response_def final_hi_def)
  show ?thesis
    using a b o m l 1 2 3 4 5 6 by blast
qed

text \<open>
  C1 as stated fails: an openai chunk whose first choice has the content \<open>Hi\<close> and
  the finish reason \<open>stop\<close> becomes one event that carries both; so does the same
  chunk from mistral, and so does a last response of ollama that carries text.
\<close>

theorem delta_with_finish_counterexample:
  "openai_stream sample_unmarshal_chunk [''data: '' @ hi_stop_payload]
     = [openai_event (hd (ock_Choices hi_stop_chunk))]
   \<and> has_delta (openai_event (hd (ock_Choices hi_stop_chunk)))
   \<and> has_finish (openai_event (hd (ock_Choices hi_stop_chunk)))
   \<and> populated (openai_event (hd (ock_Choices hi_stop_chunk))) = 2
   \<and> mistral_stream sample_unmarshal_chunk [''data: '' @ hi_stop_payload]
     = [mistral_event (hd (ock_Choices hi_stop_chunk))]
   \<and> populated (mistral_event (hd (ock_Choices hi_stop_chunk))) = 2
   \<and> ollama_stream (\<lambda>j. ''{}'') [final_hi] None = [ollama_event (\<lambda>j. ''{}'') final_hi]
   \<and> populated (ollama_event (\<lambda>j. ''{}'') final_hi) = 2"
  by (simp add: chunk_defs openai_event_def mistral_event_def ollama_event_def ollama_stream_def
        final_hi_def has_delta_def has_finish_def has_error_def populated_def
        FinishReasonStop_def)

subsection \<open>Lines that do not decode\<close>

text \<open>
  C5, as amended.  At a data line (other than \<open>[DONE]\<close>) whose payload fails to
  decode, the openai and the mistral decoder send one event, which carries the
  error alone, and read no further line; the anthropic decoder skips the line
  without an event and goes on.  A line without the \<open>data: \<close> prefix is skipped
  without an event by all three.
\<close>

theorem decode_failure_handling:
  "(HasPrefix line ''data: '' \<and> TrimPrefix line ''data: '' \<noteq> ''[DONE]''
      \<and> umo (TrimPrefix line ''data: '') = Inl err
    \<longrightarrow> openai_stream umo (line # lines) = [parse_chunk_error err]
        \<and> populated (parse_chunk_error err) = 1 \<and> has_error (parse_chunk_error err))
   \<and> (HasPrefix line ''data: '' \<and> TrimPrefix line ''data: '' \<noteq> ''[DONE]''
      \<and> umm (TrimPrefix line ''data: '') = Inl err
    \<longrightarrow> mistral_stream umm (line # lines) = [parse_chunk_error err])
   \<and> (HasPrefix line ''data: '' \<and> uma (TrimPrefix line ''data: '') = Inl err'
    \<longrightarrow> anthropic_stream uma st (line # lines) = anthropic_stream uma st lines)
   \<and> (\<not> HasPrefix line ''data: ''
    \<longrightarrow> openai_stream umo (line # lines) = openai_stream umo lines
        \<and> mistral_stream umm (line # lines) = mistral_stream umm lines
        \<and> anthropic_stream uma st (line # lines) = anthropic_stream uma st lines)"
  by (simp add: Let_def populated_def has_error_def has_delta_def has_finish_def
        parse_chunk_error_def zeroDelta_def)

text \<open>C5 as amended, at a payload of the wrong type followed by a good frame, and
  at a comment line.\<close>

theorem decode_failure_handling_witness:
  "openai_stream sample_unmarshal_chunk [''data: '' @ bad_frame, ''data: '' @ hi_stop_payload]
     = [parse_chunk_error type_error]
   \<and> mistral_stream sample_unmarshal_chunk [''data: '' @ bad_frame, ''data: '' @ hi_stop_payload]
     = [parse_chunk_error type_error]
   \<and> anthropic_stream sample_unmarshal_event initial_state
        [''data: '' @ bad_frame, ''data: '' @ text_hi]
     = anthropic_stream sample_unmarshal_event initial_state [''data: '' @ text_hi]
   \<and> openai_stream sample_unmarshal_chunk ['': ping'', ''data: '' @ hi_stop_payload]
     = openai_stream sample_unmarshal_chunk [''data: '' @ hi_stop_payload]
   \<and> mistral_stream sample_unmarshal_chunk ['': ping'', ''data: '' @ hi_stop_payload]
     = mistral_stream sample_unmarshal_chunk [''data: '' @ hi_stop_payload]
   \<and> anthropic_stream sample_unmarshal_event initial_state ['': ping'', ''data: '' @ text_hi]
     = anthropic_stream sample_unmarshal_event initial_state [''data: '' @ text_hi]"
proof -
  have p: "HasPrefix (''data: '' @ bad_frame) ''data: ''"
    "TrimPrefix (''data: '' @ bad_frame) ''data: '' = bad_frame"
    "bad_frame \<noteq> ''[DONE]''"
    "\<not> HasPrefix '': ping'' ''data: ''"
    by (simp_all add: HasPrefix_def TrimPrefix_def bad_frame_def)
  have o: "sample_unmarshal_chunk bad_frame = Inl type_error"
    by (simp add: sample_unmarshal_chunk_def hi_stop_payload_def bad_frame_def)
  have a: "sample_unmarshal_event bad_frame = Inl type_error"
    by (simp add: sample_defs)
  show ?thesis
    using decode_failure_handling [of "''data: '' @ bad_frame" sample_unmarshal_chunk
        type_error "[''data: '' @ hi_stop_payload]" sample_unmarshal_chunk
        sample_unmarshal_event type_error initial_state]
      decode_failure_handling [of "''data: '' @ bad_frame" sample_unmarshal_chunk
        type_error "[''data: '' @ text_hi]" sample_unmarshal_chunk
        sample_unmarshal_event type_error initial_state]
      decode_failure_handling [of "'': ping''" sample_unmarshal_chunk
        type_error "[''data: '' @ hi_stop_payload]" sample_unmarshal_chunk
        sample_unmarshal_event type_error initial_state]
      decode_failure_handling [of "'': ping''" sample_unmarshal_chunk
        type_error "[''data: '' @ text_hi]" sample_unmarshal_chunk
        sample_unmarshal_event type_error initial_state]
      p o a
    by simp
qed

text \<open>
  C5 as stated fails: the anthropic decoder meets a data line whose payload does
  not decode, sends no error event, and goes on to send the text of the next line.
\<close>

theorem anthropic_skips_bad_frame_counterexample:
  "sample_unmarshal_event (TrimPrefix (''data: '' @ bad_frame) ''data: '') = Inl type_error
   \<and> anthropic_stream sample_unmarshal_event initial_state
        [''data: '' @ bad_frame, ''data: '' @ text_hi]
     = [content_event ''Hi'']
   \<and> \<not> has_error (content_event ''Hi'')"
  by (simp add: sample_defs has_error_def content_event_def)

subsection \<open>The index of a tool-call fragment\<close>







text \<open>At a tool-call start the decoder counts the start and enters the index it
  gave under the block's identifier.\<close>

lemma tool_start_state:
  assumes "is_tool_start f" and "anthropic_frame st f = (evs, ret, st')"
  shows "currentToolCallIndex st' = currentToolCallIndex st + 1
         \<and> toolCallIndices st' (start_id f) =
             Some (case ase_Index f of Some i \<Rightarrow> i | None \<Rightarrow> currentToolCallIndex st)"
  using assms
  by (auto simp: anthropic_frame_def is_tool_start_def start_id_def Let_def
      split: if_splits option.splits)









end
